theory Spec2Isabelle
  imports Complex_Main "HOL-Library.AList"
begin

section \<open>The escrow state machine (domain/escrow-state.ts)\<close>

datatype EscrowState = PROPOSED | FUNDED | RELEASED | DISPUTED | REFUNDED

datatype EscrowAction =
  FUND | RELEASE | DISPUTE | RESOLVE_DISPUTE_RELEASE | RESOLVE_DISPUTE_REFUND | REFUND

datatype UserRole = BUYER | SELLER | ADMIN

text \<open>The enums are string enums; these are the strings their members stand for, as the
  template literals of the error messages print them.\<close>

fun state_str :: "EscrowState \<Rightarrow> string" where
  "state_str PROPOSED = ''PROPOSED''"
| "state_str FUNDED = ''FUNDED''"
| "state_str RELEASED = ''RELEASED''"
| "state_str DISPUTED = ''DISPUTED''"
| "state_str REFUNDED = ''REFUNDED''"

fun action_str :: "EscrowAction \<Rightarrow> string" where
  "action_str FUND = ''FUND''"
| "action_str RELEASE = ''RELEASE''"
| "action_str DISPUTE = ''DISPUTE''"
| "action_str RESOLVE_DISPUTE_RELEASE = ''RESOLVE_DISPUTE_RELEASE''"
| "action_str RESOLVE_DISPUTE_REFUND = ''RESOLVE_DISPUTE_REFUND''"
| "action_str REFUND = ''REFUND''"

fun role_str :: "UserRole \<Rightarrow> string" where
  "role_str BUYER = ''BUYER''"
| "role_str SELLER = ''SELLER''"
| "role_str ADMIN = ''ADMIN''"

text \<open>\<^verbatim>\<open>interface TransitionResult { success: boolean; newState?: EscrowState; error?: string }\<close>:
  an optional field that is left out is \<open>None\<close>.\<close>

record TransitionResult =
  success :: bool
  newState :: "EscrowState option"
  error :: "string option"

definition isTerminalState :: "EscrowState \<Rightarrow> bool" where
  "isTerminalState state \<longleftrightarrow> state = RELEASED \<or> state = REFUNDED"

text \<open>The three messages of \<^verbatim>\<open>transitionState\<close>.\<close>

definition terminal_msg :: "EscrowState \<Rightarrow> string" where
  "terminal_msg current = ''No actions allowed from terminal state '' @ state_str current"

definition role_msg :: "UserRole \<Rightarrow> EscrowAction \<Rightarrow> string" where
  "role_msg role action =
     ''Role '' @ role_str role @ '' is not allowed to perform action '' @ action_str action"

definition invalid_msg :: "EscrowState \<Rightarrow> EscrowAction \<Rightarrow> UserRole \<Rightarrow> string" where
  "invalid_msg current action role =
     ''Invalid transition: '' @ state_str current @ '' -> ('' @ action_str action @ '') by ''
       @ role_str role"

definition failure :: "string \<Rightarrow> TransitionResult" where
  "failure msg = \<lparr>success = False, newState = None, error = Some msg\<rparr>"

definition accepted :: "EscrowState \<Rightarrow> TransitionResult" where
  "accepted s = \<lparr>success = True, newState = Some s, error = None\<rparr>"

text \<open>The table \<^verbatim>\<open>permissionMap\<close>: the roles that may invoke an action at all.\<close>

fun permissionMap :: "EscrowAction \<Rightarrow> UserRole list" where
  "permissionMap FUND = [BUYER]"
| "permissionMap RELEASE = [SELLER]"
| "permissionMap DISPUTE = [BUYER]"
| "permissionMap RESOLVE_DISPUTE_RELEASE = [ADMIN]"
| "permissionMap RESOLVE_DISPUTE_REFUND = [ADMIN]"
| "permissionMap REFUND = []"

text \<open>The \<^verbatim>\<open>switch (current)\<close> of \<^verbatim>\<open>transitionState\<close>: \<open>Some\<close> result where a case
  returns, \<open>None\<close> where it breaks out of the switch.\<close>

fun transition_switch :: "EscrowState \<Rightarrow> EscrowAction \<Rightarrow> UserRole \<Rightarrow> TransitionResult option" where
  "transition_switch PROPOSED action role =
     (if action = FUND \<and> role = BUYER then Some (accepted FUNDED) else None)"
| "transition_switch FUNDED action role =
     (if action = RELEASE \<and> role = SELLER then Some (accepted RELEASED)
      else if action = DISPUTE \<and> role = BUYER then Some (accepted DISPUTED)
      else None)"
| "transition_switch DISPUTED action role =
     (if action = RESOLVE_DISPUTE_RELEASE \<and> role = ADMIN then Some (accepted RELEASED)
      else if action = RESOLVE_DISPUTE_REFUND \<and> role = ADMIN then Some (accepted REFUNDED)
      else None)"
| "transition_switch RELEASED action role = Some (failure (terminal_msg RELEASED))"
| "transition_switch REFUNDED action role = Some (failure (terminal_msg REFUNDED))"

definition transitionState :: "EscrowState \<Rightarrow> EscrowAction \<Rightarrow> UserRole \<Rightarrow> TransitionResult" where
  "transitionState current action role =
     (if isTerminalState current then failure (terminal_msg current)
      else if role \<notin> set (permissionMap action) then failure (role_msg role action)
      else (case transition_switch current action role of
              Some r \<Rightarrow> r
            | None \<Rightarrow> failure (invalid_msg current action role)))"

text \<open>The transition table as the specification prints it, with the role its
  permission list prescribes for the action of each row: (From, Action, Role, To).\<close>

definition spec_table :: "(EscrowState \<times> EscrowAction \<times> UserRole \<times> EscrowState) list" where
  "spec_table =
     [(PROPOSED, FUND, BUYER, FUNDED),
      (FUNDED, RELEASE, SELLER, RELEASED),
      (FUNDED, DISPUTE, BUYER, DISPUTED),
      (DISPUTED, RESOLVE_DISPUTE_RELEASE, ADMIN, RELEASED),
      (DISPUTED, RESOLVE_DISPUTE_REFUND, ADMIN, REFUNDED)]"

section \<open>The clock and the random source\<close>

text \<open>A \<^verbatim>\<open>Date\<close> is its time value, the milliseconds since the epoch, or the invalid
  date (time value \<^verbatim>\<open>NaN\<close>) that \<^verbatim>\<open>new Date(s)\<close> gives for a string it cannot parse.
  \<^verbatim>\<open>d1 >= d2\<close> compares the time values and is false as soon as one date is invalid.\<close>

datatype Date = Date int | Invalid_Date

fun date_ge :: "Date \<Rightarrow> Date \<Rightarrow> bool" where
  "date_ge (Date x) (Date y) \<longleftrightarrow> x \<ge> y"
| "date_ge _ _ \<longleftrightarrow> False"

text \<open>\<^verbatim>\<open>new Date()\<close>, \<^verbatim>\<open>Date.now()\<close> and \<^verbatim>\<open>Math.random()\<close> read the environment: the
  environment holds what the k-th reading of the clock (in milliseconds) and the k-th
  random draw return, and how many of each have been made.\<close>

record Env =
  clock :: "nat \<Rightarrow> int"
  ticks :: nat
  random :: "nat \<Rightarrow> string"
  draws :: nat

definition new_Date :: "Env \<Rightarrow> Date \<times> Env" where
  "new_Date w = (Date (clock w (ticks w)), w\<lparr>ticks := Suc (ticks w)\<rparr>)"

definition Date_now :: "Env \<Rightarrow> int \<times> Env" where
  "Date_now w = (clock w (ticks w), w\<lparr>ticks := Suc (ticks w)\<rparr>)"

text \<open>\<^verbatim>\<open>Math.random().toString(36).substr(2, 9)\<close>: the drawn number in base 36, cut.\<close>

definition random_suffix :: "Env \<Rightarrow> string \<times> Env" where
  "random_suffix w = (random w (draws w), w\<lparr>draws := Suc (draws w)\<rparr>)"

text \<open>The decimal digits a template literal prints for an integer.\<close>

fun digits :: "nat \<Rightarrow> string" where
  "digits n =
     (if n < 10 then [''0123456789'' ! n]
      else digits (n div 10) @ [''0123456789'' ! (n mod 10)])"

declare digits.simps [simp del]

definition int_str :: "int \<Rightarrow> string" where
  "int_str i = (if i < 0 then CHR ''-'' # digits (nat (- i)) else digits (nat i))"

section \<open>Events (domain/events.ts)\<close>

datatype EventType = ESCROW_CREATED | STATE_CHANGED

text \<open>\<^verbatim>\<open>type EscrowEvent = EscrowCreatedEvent | StateChangedEvent\<close>. The fields of
  \<^verbatim>\<open>BaseEvent\<close> come first; a selector that both events have is shared. \<^verbatim>\<open>amount\<close> is
  a number that is only ever copied.\<close>

datatype EscrowEvent =
  EscrowCreatedEvent
    (event_id: string) (timestamp: Date) (escrowId: string)
    (event_buyerId: string) (event_sellerId: string) (event_amount: real)
    (event_description: string)
| StateChangedEvent
    (event_id: string) (timestamp: Date) (escrowId: string)
    (action: EscrowAction) (fromState: EscrowState) (toState: EscrowState)
    (performedBy: string) (userRole: UserRole) (reason: "string option")

fun event_type :: "EscrowEvent \<Rightarrow> EventType" where
  "event_type (EscrowCreatedEvent i t e b s a d) = ESCROW_CREATED"
| "event_type (StateChangedEvent i t e a f to p r re) = STATE_CHANGED"

definition createEventId :: "Env \<Rightarrow> string \<times> Env" where
  "createEventId w =
     (let (now, w1) = Date_now w;
          (suffix, w2) = random_suffix w1
      in (''evt_'' @ int_str now @ ''_'' @ suffix, w2))"

definition createEscrowCreatedEvent ::
  "string \<Rightarrow> string \<Rightarrow> string \<Rightarrow> real \<Rightarrow> string \<Rightarrow> Env \<Rightarrow> EscrowEvent \<times> Env" where
  "createEscrowCreatedEvent escrowId' buyerId' sellerId' amount' description' w =
     (let (i, w1) = createEventId w;
          (t, w2) = new_Date w1
      in (EscrowCreatedEvent i t escrowId' buyerId' sellerId' amount' description', w2))"

definition createStateChangedEvent ::
  "string \<Rightarrow> EscrowAction \<Rightarrow> EscrowState \<Rightarrow> EscrowState \<Rightarrow> string \<Rightarrow> UserRole \<Rightarrow> string option
     \<Rightarrow> Env \<Rightarrow> EscrowEvent \<times> Env" where
  "createStateChangedEvent escrowId' action' fromState' toState' performedBy' userRole' reason' w =
     (let (i, w1) = createEventId w;
          (t, w2) = new_Date w1
      in (StateChangedEvent i t escrowId' action' fromState' toState' performedBy' userRole'
            reason', w2))"

text \<open>The object \<^verbatim>\<open>{ id, buyerId, sellerId, amount, description }\<close> that
  \<^verbatim>\<open>reconstructStateFromEvents\<close> returns; \<^verbatim>\<open>Escrow\<close> has these fields and three more.
  The field \<^verbatim>\<open>id\<close> is \<open>id_of\<close> here, \<open>id\<close> being the identity function of HOL.\<close>

record EscrowCore =
  id_of :: string
  buyerId :: string
  sellerId :: string
  amount :: real
  description :: string

text \<open>\<^verbatim>\<open>for (const event of stateChangeEvents) { currentState = event.toState; }\<close>\<close>

fun apply_state_changes :: "EscrowState \<Rightarrow> EscrowEvent list \<Rightarrow> EscrowState" where
  "apply_state_changes currentState' [] = currentState'"
| "apply_state_changes currentState' (event # rest) = apply_state_changes (toState event) rest"

definition reconstructStateFromEvents ::
  "EscrowEvent list \<Rightarrow> EscrowState option \<times> EscrowCore option" where
  "reconstructStateFromEvents events =
     (if length events = 0 then (None, None)
      else (case find (\<lambda>e. event_type e = ESCROW_CREATED) events of
              None \<Rightarrow> (None, None)
            | Some createdEvent \<Rightarrow>
                (let escrow = \<lparr>id_of = escrowId createdEvent,
                               buyerId = event_buyerId createdEvent,
                               sellerId = event_sellerId createdEvent,
                               amount = event_amount createdEvent,
                               description = event_description createdEvent\<rparr>;
                     stateChangeEvents = filter (\<lambda>e. event_type e = STATE_CHANGED) events
                 in (Some (apply_state_changes PROPOSED stateChangeEvents), Some escrow))))"

section \<open>The escrow aggregate (domain/escrow.ts)\<close>

record Escrow = EscrowCore +
  currentState :: EscrowState
  createdAt :: Date
  updatedAt :: Date

record EscrowWithHistory = Escrow +
  events :: "EscrowEvent list"

definition createEscrow ::
  "string \<Rightarrow> string \<Rightarrow> string \<Rightarrow> real \<Rightarrow> string \<Rightarrow> Env \<Rightarrow> (Escrow \<times> EscrowEvent) \<times> Env" where
  "createEscrow i buyerId' sellerId' amount' description' w =
     (let (now, w1) = new_Date w;
          escrow = \<lparr>id_of = i, buyerId = buyerId', sellerId = sellerId', amount = amount',
                    description = description', currentState = PROPOSED,
                    createdAt = now, updatedAt = now\<rparr>;
          (event, w2) = createEscrowCreatedEvent i buyerId' sellerId' amount' description' w1
      in ((escrow, event), w2))"

text \<open>The result of \<^verbatim>\<open>applyAction\<close>:
  \<^verbatim>\<open>{ success: boolean; newEscrow?: Escrow; event?: EscrowEvent; error?: string }\<close>.
  Its \<^verbatim>\<open>success\<close> and \<^verbatim>\<open>error\<close> are \<open>applied\<close> and \<open>apply_error\<close> here, the fields of
  \<open>TransitionResult\<close> having the names. \<^verbatim>\<open>transition.newState!\<close> is read with \<open>the\<close>:
  a successful transition always carries its new state (\<open>transitionState_newState\<close>).\<close>

record ApplyResult =
  applied :: bool
  newEscrow :: "Escrow option"
  event :: "EscrowEvent option"
  apply_error :: "string option"

definition applyAction ::
  "Escrow \<Rightarrow> EscrowAction \<Rightarrow> string \<Rightarrow> UserRole \<Rightarrow> string option \<Rightarrow> Env \<Rightarrow> ApplyResult \<times> Env" where
  "applyAction escrow action' performedBy' userRole' reason' w =
     (let transition = transitionState (currentState escrow) action' userRole'
      in if \<not> success transition
         then (\<lparr>applied = False, newEscrow = None, event = None,
                 apply_error = error transition\<rparr>, w)
         else
           (let (now, w1) = new_Date w;
                newEscrow' = escrow\<lparr>currentState := the (newState transition),
                                     updatedAt := now\<rparr>;
                (event', w2) = createStateChangedEvent (id_of escrow) action'
                                 (currentState escrow) (the (newState transition))
                                 performedBy' userRole' reason' w1
            in (\<lparr>applied = True, newEscrow = Some newEscrow', event = Some event',
                  apply_error = None\<rparr>, w2)))"

text \<open>\<^verbatim>\<open>reconstructEscrow\<close> looks the created event up a second time, in the same array
  in which \<^verbatim>\<open>reconstructStateFromEvents\<close> has found it: the lookup cannot fail where the
  first one succeeded.\<close>

definition reconstructEscrow :: "EscrowEvent list \<Rightarrow> EscrowWithHistory option" where
  "reconstructEscrow events' =
     (case reconstructStateFromEvents events' of
        (Some state, Some escrow) \<Rightarrow>
          (case find (\<lambda>e. event_type e = ESCROW_CREATED) events' of
             Some createdEvent \<Rightarrow>
               Some \<lparr>id_of = id_of escrow, buyerId = buyerId escrow, sellerId = sellerId escrow,
                      amount = amount escrow, description = description escrow,
                      currentState = state,
                      createdAt = timestamp createdEvent,
                      updatedAt = timestamp (events' ! (length events' - 1)),
                      events = events'\<rparr>
           | None \<Rightarrow> None)
      | _ \<Rightarrow> None)"

section \<open>The JSON-backed store (storage/escrow-store.ts)\<close>

record EscrowData =
  data_escrow :: Escrow
  data_events :: "EscrowEvent list"

text \<open>\<^verbatim>\<open>Record<string, EscrowData>\<close> is a plain object: its own properties in their order
  (the order among integer-like keys apart, which nothing here depends on), and its
  prototype. The prototype is \<^verbatim>\<open>Object.prototype\<close>, unless an assignment to the key
  \<^verbatim>\<open>__proto__\<close> has made an \<^verbatim>\<open>EscrowData\<close> object the prototype.\<close>

datatype Prototype = Object_prototype | Data_prototype EscrowData

record EscrowRecord =
  own :: "(string \<times> EscrowData) list"
  proto :: Prototype

text \<open>The object literal \<^verbatim>\<open>{}\<close>.\<close>

definition empty_record :: EscrowRecord where
  "empty_record = \<lparr>own = [], proto = Object_prototype\<rparr>"

text \<open>The names of the members of \<^verbatim>\<open>Object.prototype\<close>, which every plain object
  inherits.\<close>

definition Object_prototype_names :: "string list" where
  "Object_prototype_names =
     [''constructor'', ''__defineGetter__'', ''__defineSetter__'', ''hasOwnProperty'',
      ''__lookupGetter__'', ''__lookupSetter__'', ''isPrototypeOf'', ''propertyIsEnumerable'',
      ''toString'', ''valueOf'', ''__proto__'', ''toLocaleString'']"

text \<open>What \<^verbatim>\<open>obj[key]\<close> evaluates to: \<^verbatim>\<open>undefined\<close>, an \<^verbatim>\<open>EscrowData\<close> object, or a value
  that is none: a member of \<^verbatim>\<open>Object.prototype\<close>, or the \<^verbatim>\<open>escrow\<close> or \<^verbatim>\<open>events\<close> of a
  prototype that is an \<^verbatim>\<open>EscrowData\<close>. Such a foreign value is truthy, and its \<^verbatim>\<open>.escrow\<close>
  and \<^verbatim>\<open>.events\<close> are \<^verbatim>\<open>undefined\<close>.\<close>

datatype Lookup = Undefined | Entry EscrowData | Foreign

text \<open>\<^verbatim>\<open>obj[key]\<close>: the own property, else what the prototype chain gives. The getter of
  \<^verbatim>\<open>__proto__\<close> returns the prototype itself.\<close>

definition get_prop :: "EscrowRecord \<Rightarrow> string \<Rightarrow> Lookup" where
  "get_prop obj key =
     (case map_of (own obj) key of
        Some v \<Rightarrow> Entry v
      | None \<Rightarrow>
          (case proto obj of
             Data_prototype d \<Rightarrow>
               if key = ''__proto__'' then Entry d
               else if key = ''escrow'' \<or> key = ''events'' then Foreign
               else if key \<in> set Object_prototype_names then Foreign
               else Undefined
           | Object_prototype \<Rightarrow>
               if key \<in> set Object_prototype_names then Foreign else Undefined))"

text \<open>\<^verbatim>\<open>obj[key] = v\<close> for an object \<open>v\<close>: an own property is overwritten in place; the
  inherited setter of \<^verbatim>\<open>__proto__\<close> makes \<open>v\<close> the prototype and adds no property; any
  other key becomes a new own property at the end.\<close>

definition set_prop :: "string \<Rightarrow> EscrowData \<Rightarrow> EscrowRecord \<Rightarrow> EscrowRecord" where
  "set_prop key v obj =
     (if map_of (own obj) key = None \<and> key = ''__proto__''
      then obj\<lparr>proto := Data_prototype v\<rparr>
      else obj\<lparr>own := AList.update key v (own obj)\<rparr>)"

text \<open>\<^verbatim>\<open>Object.keys\<close>, and the keys of \<^verbatim>\<open>new Set([...])\<close> in insertion order.\<close>

definition keys :: "EscrowRecord \<Rightarrow> string list" where
  "keys r = map fst (AList.clearjunk (own r))"

fun set_of_keys :: "string list \<Rightarrow> string list \<Rightarrow> string list" where
  "set_of_keys seen [] = seen"
| "set_of_keys seen (k # ks) = set_of_keys (if k \<in> set seen then seen else seen @ [k]) ks"

text \<open>A candidate file: not there, there but not readable as JSON of the expected shape,
  or holding a serialised record. A file is modelled by the own properties of the object
  that \<^verbatim>\<open>readFileIfExists\<close> makes of it, dates revived. \<^verbatim>\<open>JSON.stringify\<close> writes the own
  properties only, a date as its ISO string and an invalid date as \<^verbatim>\<open>null\<close>, which
  \<^verbatim>\<open>new Date(null)\<close> revives as the epoch.\<close>

datatype FileState = NoFile | Unreadable | Stored "(string \<times> EscrowData) list"

fun reread_date :: "Date \<Rightarrow> Date" where
  "reread_date (Date t) = Date t"
| "reread_date Invalid_Date = Date 0"

fun reread_event :: "EscrowEvent \<Rightarrow> EscrowEvent" where
  "reread_event (EscrowCreatedEvent i t e b s a d) =
     EscrowCreatedEvent i (reread_date t) e b s a d"
| "reread_event (StateChangedEvent i t e a f to p r re) =
     StateChangedEvent i (reread_date t) e a f to p r re"

definition reread_data :: "EscrowData \<Rightarrow> EscrowData" where
  "reread_data d =
     \<lparr>data_escrow = (data_escrow d)\<lparr>createdAt := reread_date (createdAt (data_escrow d)),
                                     updatedAt := reread_date (updatedAt (data_escrow d))\<rparr>,
      data_events = map reread_event (data_events d)\<rparr>"

text \<open>The file that \<^verbatim>\<open>writeFileSync(file, JSON.stringify(cache, null, 2))\<close> leaves.\<close>

definition written :: "EscrowRecord \<Rightarrow> FileState" where
  "written obj = Stored (map (\<lambda>(k, d). (k, reread_data d)) (own obj))"

text \<open>The process-wide state \<^verbatim>\<open>__ESCROW_STORE_STATE\<close> and the two candidate files. The
  field \<^verbatim>\<open>this.cache\<close> is re-pointed to \<^verbatim>\<open>state.cache\<close> before every use, so the model reads
  \<open>cache\<close> for both. Whether a write to a file goes through (its directory exists, the
  file can be written) is a fact of the file system; a failed write is swallowed.\<close>

record Store =
  cache :: EscrowRecord
  loaded :: bool
  primaryFile :: FileState
  secondaryFile :: FileState
  primaryWritable :: bool
  secondaryWritable :: bool

definition existsSync :: "FileState \<Rightarrow> bool" where
  "existsSync f \<longleftrightarrow> f \<noteq> NoFile"

fun readFileIfExists :: "FileState \<Rightarrow> EscrowRecord option" where
  "readFileIfExists NoFile = None"
| "readFileIfExists Unreadable = None"
| "readFileIfExists (Stored r) = Some \<lparr>own = r, proto = Object_prototype\<rparr>"

text \<open>The errors thrown: the \<^verbatim>\<open>Error\<close> of \<^verbatim>\<open>update\<close> with its message, and the
  \<^verbatim>\<open>TypeError\<close> of the engine on reading a property of \<^verbatim>\<open>undefined\<close> or spreading it.\<close>

datatype Error = Error string | TypeError

text \<open>The body of \<^verbatim>\<open>for (const key of allKeys)\<close> in \<^verbatim>\<open>ensureLoaded\<close>, by what \<^verbatim>\<open>a[key]\<close>
  and \<^verbatim>\<open>b[key]\<close> are. With two truthy values \<^verbatim>\<open>va.escrow.updatedAt >= vb.escrow.updatedAt\<close>
  is evaluated, which throws when one of them is foreign. Every key is an own key of
  \<open>a\<close> or of \<open>b\<close>, so one of the two is an entry and the last equation is never used
  (lemma \<open>merge_key_reached\<close>).\<close>

fun merge_values :: "Lookup \<Rightarrow> Lookup \<Rightarrow> string \<Rightarrow> EscrowRecord \<Rightarrow> Error + EscrowRecord" where
  "merge_values (Entry va) (Entry vb) key merged =
     Inr (set_prop key
            (if date_ge (updatedAt (data_escrow va)) (updatedAt (data_escrow vb)) then va else vb)
            merged)"
| "merge_values (Entry va) Foreign key merged = Inl TypeError"
| "merge_values Foreign (Entry vb) key merged = Inl TypeError"
| "merge_values Foreign Foreign key merged = Inl TypeError"
| "merge_values (Entry va) Undefined key merged = Inr (set_prop key va merged)"
| "merge_values Undefined (Entry vb) key merged = Inr (set_prop key vb merged)"
| "merge_values va vb key merged = Inr merged"

definition merge_key ::
  "EscrowRecord \<Rightarrow> EscrowRecord \<Rightarrow> string \<Rightarrow> EscrowRecord \<Rightarrow> Error + EscrowRecord" where
  "merge_key a b key merged = merge_values (get_prop a key) (get_prop b key) key merged"

text \<open>The loop: it stops at the first key whose body throws.\<close>

fun merge_loop ::
  "EscrowRecord \<Rightarrow> EscrowRecord \<Rightarrow> string list \<Rightarrow> EscrowRecord \<Rightarrow> Error + EscrowRecord" where
  "merge_loop a b [] merged = Inr merged"
| "merge_loop a b (key # rest) merged =
     (case merge_key a b key merged of
        Inl err \<Rightarrow> Inl err
      | Inr merged' \<Rightarrow> merge_loop a b rest merged')"

definition merge_sources :: "EscrowRecord \<Rightarrow> EscrowRecord \<Rightarrow> Error + EscrowRecord" where
  "merge_sources a b = merge_loop a b (set_of_keys [] (keys a @ keys b)) empty_record"

text \<open>\<^verbatim>\<open>ensureLoaded\<close>: the result is the store after the call, or the error thrown out of
  the loop, which nothing catches; the state is assigned only after the loop, so a throw
  leaves the store as it was.\<close>

definition ensureLoaded :: "Store \<Rightarrow> Error + Store" where
  "ensureLoaded st =
     (if loaded st then Inr st
      else
        (let a = (case readFileIfExists (primaryFile st) of Some r \<Rightarrow> r | None \<Rightarrow> empty_record);
             b = (case readFileIfExists (secondaryFile st) of Some r \<Rightarrow> r | None \<Rightarrow> empty_record)
         in case merge_sources a b of
              Inl err \<Rightarrow> Inl err
            | Inr merged \<Rightarrow>
                (let st1 = st\<lparr>cache := merged, loaded := True\<rparr>
                 in if \<not> existsSync (primaryFile st1) \<and> primaryWritable st1
                    then Inr (st1\<lparr>primaryFile := written (cache st1)\<rparr>)
                    else Inr st1)))"

definition persist :: "Store \<Rightarrow> Store" where
  "persist st =
     (let st1 = (if primaryWritable st then st\<lparr>primaryFile := written (cache st)\<rparr> else st)
      in if secondaryWritable st1 then st1\<lparr>secondaryFile := written (cache st1)\<rparr> else st1)"

text \<open>The methods return what they return or the error they throw, together with the
  store the call leaves.

  \<^verbatim>\<open>create(escrow, initialEvent): void\<close>\<close>

definition create :: "Escrow \<Rightarrow> EscrowEvent \<Rightarrow> Store \<Rightarrow> (Error + unit) \<times> Store" where
  "create escrow initialEvent st =
     (case ensureLoaded st of
        Inl err \<Rightarrow> (Inl err, st)
      | Inr st1 \<Rightarrow>
          (Inr (), persist (st1\<lparr>cache := set_prop (id_of escrow)
                      \<lparr>data_escrow = escrow, data_events = [initialEvent]\<rparr> (cache st1)\<rparr>)))"

text \<open>\<^verbatim>\<open>getById(id): EscrowWithHistory | null\<close>. On a foreign value \<^verbatim>\<open>[...data.events]\<close>
  throws.\<close>

definition getById :: "string \<Rightarrow> Store \<Rightarrow> (Error + EscrowWithHistory option) \<times> Store" where
  "getById i st =
     (case ensureLoaded st of
        Inl err \<Rightarrow> (Inl err, st)
      | Inr st1 \<Rightarrow>
          (case get_prop (cache st1) i of
             Undefined \<Rightarrow> (Inr None, st1)
           | Foreign \<Rightarrow> (Inl TypeError, st1)
           | Entry data \<Rightarrow>
               (Inr (Some (Escrow.extend (data_escrow data) \<lparr>events = data_events data\<rparr>)),
                st1)))"

text \<open>\<^verbatim>\<open>update(escrow, event): void\<close>, which throws
  \<^verbatim>\<open>new Error(`Escrow ${escrow.id} not found`)\<close> when \<^verbatim>\<open>state.cache[escrow.id]\<close> is falsy. On
  a foreign value \<^verbatim>\<open>[...data.events, event]\<close> throws, before anything is assigned.\<close>

definition update :: "Escrow \<Rightarrow> EscrowEvent \<Rightarrow> Store \<Rightarrow> (Error + unit) \<times> Store" where
  "update escrow event' st =
     (case ensureLoaded st of
        Inl err \<Rightarrow> (Inl err, st)
      | Inr st1 \<Rightarrow>
          (case get_prop (cache st1) (id_of escrow) of
             Undefined \<Rightarrow> (Inl (Error (''Escrow '' @ id_of escrow @ '' not found'')), st1)
           | Foreign \<Rightarrow> (Inl TypeError, st1)
           | Entry data \<Rightarrow>
               (Inr (), persist (st1\<lparr>cache := set_prop (id_of escrow)
                          \<lparr>data_escrow = escrow, data_events = data_events data @ [event']\<rparr>
                          (cache st1)\<rparr>))))"

text \<open>\<^verbatim>\<open>clear(): void\<close>\<close>

definition clear :: "Store \<Rightarrow> Store" where
  "clear st = persist (st\<lparr>cache := empty_record, loaded := True\<rparr>)"

text \<open>The constructor of \<^verbatim>\<open>EscrowStore\<close> ends in \<^verbatim>\<open>ensureLoaded\<close>: the singleton
  \<^verbatim>\<open>escrowStore\<close> is built over whatever the two files hold, and there is no store when
  the load throws.\<close>

definition new_EscrowStore :: "FileState \<Rightarrow> FileState \<Rightarrow> bool \<Rightarrow> bool \<Rightarrow> Error + Store" where
  "new_EscrowStore f1 f2 w1 w2 =
     ensureLoaded \<lparr>cache = empty_record, loaded = False, primaryFile = f1, secondaryFile = f2,
                   primaryWritable = w1, secondaryWritable = w2\<rparr>"

section \<open>Lifecycles and sample data\<close>

text \<open>A request to \<^verbatim>\<open>applyAction\<close>: the action, who performs it, in which role, and the
  optional reason.\<close>

type_synonym Request = "EscrowAction \<times> string \<times> UserRole \<times> string option"

text \<open>A series of \<^verbatim>\<open>applyAction\<close> calls, each on the snapshot the call before returned,
  as the integration tests chain them. The history gains the event of each call at its
  end; the series has a result when every call was accepted.\<close>

fun apply_all ::
  "Escrow \<Rightarrow> EscrowEvent list \<Rightarrow> Request list \<Rightarrow> Env \<Rightarrow> (Escrow \<times> EscrowEvent list \<times> Env) option" where
  "apply_all e h [] w = Some (e, h, w)"
| "apply_all e h ((a, p, r, re) # rest) w =
     (let (res, w') = applyAction e a p r re w
      in if applied res
         then (case (newEscrow res, event res) of
                 (Some e', Some ev) \<Rightarrow> apply_all e' (h @ [ev]) rest w'
               | _ \<Rightarrow> None)
         else None)"

text \<open>\<^verbatim>\<open>createEscrow\<close> followed by such a series.\<close>

definition lifecycle ::
  "string \<Rightarrow> string \<Rightarrow> string \<Rightarrow> real \<Rightarrow> string \<Rightarrow> Request list \<Rightarrow> Env
     \<Rightarrow> (Escrow \<times> EscrowEvent list \<times> Env) option" where
  "lifecycle i b s am d reqs w =
     (let ((e, ev), w1) = createEscrow i b s am d w in apply_all e [ev] reqs w1)"

text \<open>The entry \<^verbatim>\<open>ensureLoaded\<close> keeps for a key that names no member of
  \<^verbatim>\<open>Object.prototype\<close>, read off the own properties of the two sources.\<close>

definition merged_entry ::
  "(string \<times> EscrowData) list \<Rightarrow> (string \<times> EscrowData) list \<Rightarrow> string \<Rightarrow> EscrowData option" where
  "merged_entry a b k =
     (case (map_of a k, map_of b k) of
        (Some va, Some vb) \<Rightarrow>
          Some (if date_ge (updatedAt (data_escrow va)) (updatedAt (data_escrow vb))
                then va else vb)
      | (Some va, None) \<Rightarrow> Some va
      | (None, Some vb) \<Rightarrow> Some vb
      | (None, None) \<Rightarrow> None)"

text \<open>Two environments: a clock that stands still, and a clock that advances by one
  millisecond at every second reading.\<close>

definition frozen_env :: Env where
  "frozen_env = \<lparr>clock = (\<lambda>k. 1000), ticks = 0, random = (\<lambda>k. ''k3j9x0q1z''), draws = 0\<rparr>"

definition ticking_env :: Env where
  "ticking_env = \<lparr>clock = (\<lambda>k. 1000 + int (k div 2)), ticks = 0,
                   random = (\<lambda>k. ''k3j9x0q1z''), draws = 0\<rparr>"

text \<open>The escrow of the integration test, in a given state and last updated at a given
  time, and events of its history.\<close>

definition test_escrow :: "EscrowState \<Rightarrow> int \<Rightarrow> Escrow" where
  "test_escrow s t =
     \<lparr>id_of = ''test-escrow-1'', buyerId = ''buyer-123'', sellerId = ''seller-456'',
      amount = 5000, description = ''Purchase of goods'', currentState = s,
      createdAt = Date 1000, updatedAt = Date t\<rparr>"

definition created_event :: EscrowEvent where
  "created_event =
     EscrowCreatedEvent ''evt_1000_k3j9x0q1z'' (Date 1000) ''test-escrow-1'' ''buyer-123''
       ''seller-456'' 5000 ''Purchase of goods''"

definition funded_event :: EscrowEvent where
  "funded_event =
     StateChangedEvent ''evt_2000_k3j9x0q1z'' (Date 2000) ''test-escrow-1'' FUND PROPOSED FUNDED
       ''buyer-123'' BUYER None"

definition released_event :: EscrowEvent where
  "released_event =
     StateChangedEvent ''evt_3000_k3j9x0q1z'' (Date 3000) ''test-escrow-1'' RELEASE FUNDED RELEASED
       ''seller-456'' SELLER None"

text \<open>A loaded store that holds the funded test escrow, and one that holds nothing.\<close>

definition funded_entry :: EscrowData where
  "funded_entry =
     \<lparr>data_escrow = test_escrow FUNDED 2000, data_events = [created_event, funded_event]\<rparr>"

definition proposed_entry :: EscrowData where
  "proposed_entry =
     \<lparr>data_escrow = test_escrow PROPOSED 1000, data_events = [created_event]\<rparr>"

definition funded_store :: Store where
  "funded_store =
     \<lparr>cache = \<lparr>own = [(''test-escrow-1'', funded_entry)], proto = Object_prototype\<rparr>,
      loaded = True,
      primaryFile = Stored [(''test-escrow-1'', funded_entry)],
      secondaryFile = NoFile, primaryWritable = True, secondaryWritable = True\<rparr>"

definition empty_store :: Store where
  "empty_store =
     \<lparr>cache = empty_record, loaded = True, primaryFile = Stored [], secondaryFile = Stored [],
      primaryWritable = True, secondaryWritable = True\<rparr>"

text \<open>Two candidate files that disagree on the test escrow, and a store that has not
  loaded them yet.\<close>

definition older_source :: "(string \<times> EscrowData) list" where
  "older_source = [(''test-escrow-1'', proposed_entry), (''only-primary'', proposed_entry)]"

definition newer_source :: "(string \<times> EscrowData) list" where
  "newer_source = [(''test-escrow-1'', funded_entry)]"

definition unloaded_store :: Store where
  "unloaded_store =
     \<lparr>cache = empty_record, loaded = False, primaryFile = Stored older_source,
      secondaryFile = Stored newer_source, primaryWritable = True, secondaryWritable = True\<rparr>"

text \<open>The test escrow under the id \<^verbatim>\<open>constructor\<close>, and a store that has not loaded yet
  whose primary file holds an entry under that key while there is no secondary file.\<close>

definition constructor_escrow :: Escrow where
  "constructor_escrow = (test_escrow PROPOSED 1000)\<lparr>id_of := ''constructor''\<rparr>"

definition constructor_store :: Store where
  "constructor_store =
     \<lparr>cache = empty_record, loaded = False,
      primaryFile = Stored [(''constructor'',
        \<lparr>data_escrow = constructor_escrow, data_events = [created_event]\<rparr>)],
      secondaryFile = NoFile, primaryWritable = True, secondaryWritable = True\<rparr>"

text \<open>The history \<open>h\<close> replays to the snapshot \<open>e\<close> up to the two timestamps: the
  replayed escrow has the identity, the attributes and the state of \<open>e\<close>, and takes
  \<^verbatim>\<open>createdAt\<close> and \<^verbatim>\<open>updatedAt\<close> from the first and the last event.\<close>

definition replays :: "Escrow \<Rightarrow> EscrowEvent list \<Rightarrow> bool" where
  "replays e h \<longleftrightarrow>
     (\<exists>r. reconstructEscrow h = Some r
        \<and> id_of r = id_of e \<and> buyerId r = buyerId e \<and> sellerId r = sellerId e
        \<and> amount r = amount e \<and> description r = description e
        \<and> currentState r = currentState e
        \<and> createdAt r = timestamp (hd h) \<and> updatedAt r = timestamp (last h)
        \<and> events r = h)"

section \<open>The state machine: results\<close>

lemmas sm_defs = transitionState_def isTerminalState_def failure_def accepted_def
  terminal_msg_def role_msg_def invalid_msg_def

lemmas env_defs = new_Date_def Date_now_def random_suffix_def createEventId_def
  createEscrowCreatedEvent_def createStateChangedEvent_def

lemma transitionState_newState:
  "success (transitionState s a r) \<Longrightarrow> newState (transitionState s a r) \<noteq> None"
  by (cases s; cases a; cases r) (simp_all add: sm_defs)

text \<open>
  Claim C4 (transition-table exactness). \<^verbatim>\<open>transitionState(state, action, role)\<close> succeeds
  if and only if (state, action, role) is a row of the table with the role prescribed for
  its action; for such a row the result is the success result whose \<^verbatim>\<open>newState\<close> is the
  row's To state; and \<^verbatim>\<open>REFUND\<close> succeeds from no state and for no role.
\<close>

theorem transition_table_exact:
  "(success (transitionState s a r) \<longleftrightarrow> (\<exists>t. (s, a, r, t) \<in> set spec_table))
   \<and> (\<forall>t. (s, a, r, t) \<in> set spec_table \<longrightarrow>
          transitionState s a r = \<lparr>success = True, newState = Some t, error = None\<rparr>)
   \<and> \<not> success (transitionState s REFUND r)"
  by (cases s; cases a; cases r) (simp_all add: sm_defs spec_table_def)

theorem transition_table_exact_witness:
  "success (transitionState FUNDED DISPUTE BUYER)
   \<and> transitionState FUNDED DISPUTE BUYER =
       \<lparr>success = True, newState = Some DISPUTED, error = None\<rparr>
   \<and> \<not> success (transitionState FUNDED FUND BUYER)
   \<and> \<not> success (transitionState FUNDED REFUND ADMIN)"
  using transition_table_exact [of FUNDED DISPUTE BUYER]
    transition_table_exact [of FUNDED FUND BUYER]
    transition_table_exact [of FUNDED REFUND ADMIN]
  by (simp add: spec_table_def)

text \<open>
  Claim C5 (terminal-state gate). When the escrow's \<^verbatim>\<open>currentState\<close> is \<^verbatim>\<open>RELEASED\<close> or
  \<^verbatim>\<open>REFUNDED\<close>, \<^verbatim>\<open>transitionState\<close> rejects with the terminal-state message for every
  action and every role, also for those a later check would reject for another reason,
  and \<^verbatim>\<open>applyAction\<close> returns the failure that carries this message, with no snapshot and
  no event, and reads neither the clock nor the random source.
\<close>

theorem terminal_gate:
  "currentState e \<in> {RELEASED, REFUNDED} \<Longrightarrow>
     transitionState (currentState e) a r =
       \<lparr>success = False, newState = None,
        error = Some (''No actions allowed from terminal state '' @ state_str (currentState e))\<rparr>
     \<and> applyAction e a p r re w =
       (\<lparr>applied = False, newEscrow = None, event = None,
         apply_error = Some (''No actions allowed from terminal state ''
                              @ state_str (currentState e))\<rparr>, w)"
  by (auto simp add: sm_defs applyAction_def)

theorem terminal_gate_witness:
  "currentState (test_escrow RELEASED 3000) \<in> {RELEASED, REFUNDED}
   \<and> transitionState RELEASED FUND SELLER =
       \<lparr>success = False, newState = None,
        error = Some ''No actions allowed from terminal state RELEASED''\<rparr>
   \<and> applyAction (test_escrow RELEASED 3000) FUND ''seller-456'' SELLER None frozen_env =
       (\<lparr>applied = False, newEscrow = None, event = None,
         apply_error = Some ''No actions allowed from terminal state RELEASED''\<rparr>, frozen_env)"
  using terminal_gate [of "test_escrow RELEASED 3000" FUND SELLER "''seller-456''" None frozen_env]
  by (simp add: test_escrow_def)

section \<open>The aggregate: results\<close>

text \<open>
  Claim C8 (atomic rejection at the aggregate). Whenever \<^verbatim>\<open>transitionState\<close> rejects the
  triple of the escrow's state, the action and the role, \<^verbatim>\<open>applyAction\<close> returns the
  failure result whose \<^verbatim>\<open>error\<close> is the state machine's reason (and there is one), with
  no \<^verbatim>\<open>newEscrow\<close> and no \<^verbatim>\<open>event\<close>; the environment is left as it was. The function has
  no access to the store.
\<close>

theorem atomic_rejection:
  "\<not> success (transitionState (currentState e) a r) \<Longrightarrow>
     applyAction e a p r re w =
       (\<lparr>applied = False, newEscrow = None, event = None,
         apply_error = error (transitionState (currentState e) a r)\<rparr>, w)
     \<and> error (transitionState (currentState e) a r) \<noteq> None"
  by (cases "currentState e"; cases a; cases r) (simp_all add: sm_defs applyAction_def)

theorem atomic_rejection_witness:
  "\<not> success (transitionState (currentState (test_escrow PROPOSED 1000)) RELEASE SELLER)
   \<and> applyAction (test_escrow PROPOSED 1000) RELEASE ''seller-456'' SELLER None frozen_env =
       (\<lparr>applied = False, newEscrow = None, event = None,
         apply_error = Some ''Invalid transition: PROPOSED -> (RELEASE) by SELLER''\<rparr>,
        frozen_env)"
  using atomic_rejection [of "test_escrow PROPOSED 1000" RELEASE SELLER "''seller-456''" None
      frozen_env]
  by (simp add: test_escrow_def sm_defs)

text \<open>
  Claim C9 (frame condition of \<^verbatim>\<open>applyAction\<close>). For every accepted action the new
  snapshot has the \<^verbatim>\<open>id\<close>, \<^verbatim>\<open>buyerId\<close>, \<^verbatim>\<open>sellerId\<close>, \<^verbatim>\<open>amount\<close>, \<^verbatim>\<open>description\<close> and
  \<^verbatim>\<open>createdAt\<close> of the input escrow, its \<^verbatim>\<open>currentState\<close> is the state machine's next
  state, and it equals the input escrow with \<^verbatim>\<open>currentState\<close> and \<^verbatim>\<open>updatedAt\<close> replaced:
  nothing else differs. The input escrow is a value that the call does not change.
\<close>

theorem applyAction_frame:
  "applied (fst (applyAction e a p r re w)) \<Longrightarrow>
     \<exists>e'. newEscrow (fst (applyAction e a p r re w)) = Some e'
        \<and> id_of e' = id_of e \<and> buyerId e' = buyerId e \<and> sellerId e' = sellerId e
        \<and> amount e' = amount e \<and> description e' = description e
        \<and> createdAt e' = createdAt e
        \<and> newState (transitionState (currentState e) a r) = Some (currentState e')
        \<and> e' = e\<lparr>currentState := currentState e', updatedAt := updatedAt e'\<rparr>"
  by (cases "success (transitionState (currentState e) a r)")
     (auto simp add: applyAction_def Let_def split_def dest: transitionState_newState)

lemma fund_applied:
  "applied (fst (applyAction (test_escrow PROPOSED 1000) FUND ''buyer-123'' BUYER None
      ticking_env))"
  by (simp add: applyAction_def test_escrow_def sm_defs env_defs Let_def split_def)

theorem applyAction_frame_witness:
  "applied (fst (applyAction (test_escrow PROPOSED 1000) FUND ''buyer-123'' BUYER None
      ticking_env))
   \<and> (\<exists>e'. newEscrow (fst (applyAction (test_escrow PROPOSED 1000) FUND ''buyer-123'' BUYER
              None ticking_env)) = Some e'
        \<and> id_of e' = ''test-escrow-1'' \<and> buyerId e' = ''buyer-123''
        \<and> sellerId e' = ''seller-456'' \<and> amount e' = 5000
        \<and> description e' = ''Purchase of goods'' \<and> createdAt e' = Date 1000
        \<and> currentState e' = FUNDED)"
  using applyAction_frame [OF fund_applied] fund_applied
  by (auto simp add: test_escrow_def sm_defs)

section \<open>The store: results\<close>

lemma ensureLoaded_loaded: "loaded st \<Longrightarrow> ensureLoaded st = Inr st"
  by (simp add: ensureLoaded_def)

lemma loaded_ensureLoaded: "ensureLoaded st = Inr st1 \<Longrightarrow> loaded st1"
  by (auto simp add: ensureLoaded_def Let_def split: if_splits sum.splits)

lemma loaded_new_EscrowStore: "new_EscrowStore f1 f2 w1 w2 = Inr st \<Longrightarrow> loaded st"
  unfolding new_EscrowStore_def by (rule loaded_ensureLoaded)

lemma loaded_persist: "loaded (persist st) = loaded st"
  by (simp add: persist_def Let_def)

lemma loaded_create: "loaded st \<Longrightarrow> loaded (snd (create e ev st))"
  by (simp add: create_def ensureLoaded_loaded loaded_persist)

lemma loaded_update: "loaded st \<Longrightarrow> loaded (snd (update e ev st))"
  by (simp add: update_def ensureLoaded_loaded loaded_persist split: Lookup.splits)

lemma loaded_clear: "loaded (clear st)"
  by (simp add: clear_def loaded_persist)

lemma cache_persist: "cache (persist st) = cache st"
  by (simp add: persist_def Let_def)

text \<open>A property reads as what was last assigned to it, whatever the key.\<close>

lemma set_prop_proto:
  "map_of (own obj) ''__proto__'' = None \<Longrightarrow>
     set_prop ''__proto__'' v obj = obj\<lparr>proto := Data_prototype v\<rparr>"
  by (simp add: set_prop_def)

lemma set_prop_own:
  "\<not> (map_of (own obj) k = None \<and> k = ''__proto__'') \<Longrightarrow>
     set_prop k v obj = obj\<lparr>own := AList.update k v (own obj)\<rparr>"
  unfolding set_prop_def by (rule if_not_P)

lemma get_prop_set_prop: "get_prop (set_prop k v obj) k = Entry v"
proof (cases "map_of (own obj) k = None \<and> k = ''__proto__''")
  case True
  then have k: "k = ''__proto__''" and n: "map_of (own obj) ''__proto__'' = None"
    by auto
  show ?thesis unfolding k by (simp add: set_prop_proto [OF n] get_prop_def n)
next
  case False
  show ?thesis by (simp add: set_prop_own [OF False] get_prop_def update_conv')
qed


text \<open>Keys that name no member of \<^verbatim>\<open>Object.prototype\<close>, on objects whose prototype it is.\<close>

lemma proto_name_listed: "''__proto__'' \<in> set Object_prototype_names"
  by (simp add: Object_prototype_names_def)

lemma get_prop_plain:
  "proto obj = Object_prototype \<Longrightarrow> k \<notin> set Object_prototype_names \<Longrightarrow>
     get_prop obj k = (case map_of (own obj) k of Some v \<Rightarrow> Entry v | None \<Rightarrow> Undefined)"
  by (simp add: get_prop_def split: option.splits)

lemma set_prop_plain:
  "k \<notin> set Object_prototype_names \<Longrightarrow>
     set_prop k v obj = obj\<lparr>own := AList.update k v (own obj)\<rparr>"
  using proto_name_listed by (auto simp add: set_prop_def)

lemma merge_key_plain:
  assumes "proto a = Object_prototype" and "proto b = Object_prototype"
    and "k \<notin> set Object_prototype_names"
  shows "merge_key a b k m =
     Inr (case merged_entry (own a) (own b) k of
            Some v \<Rightarrow> m\<lparr>own := AList.update k v (own m)\<rparr>
          | None \<Rightarrow> m)"
  using assms
  by (simp add: merge_key_def get_prop_plain set_prop_plain merged_entry_def
        split: option.splits)

lemma merge_loop_plain:
  assumes "proto a = Object_prototype" and "proto b = Object_prototype"
    and "\<forall>k \<in> set ks. k \<notin> set Object_prototype_names"
  shows "\<exists>m'. merge_loop a b ks m = Inr m' \<and> proto m' = proto m
     \<and> (\<forall>k. map_of (own m') k =
           (if k \<in> set ks \<and> merged_entry (own a) (own b) k \<noteq> None
            then merged_entry (own a) (own b) k else map_of (own m) k))"
  using assms(3)
proof (induction ks arbitrary: m)
  case Nil
  then show ?case by simp
next
  case (Cons key ks)
  let ?m1 = "case merged_entry (own a) (own b) key of
               Some v \<Rightarrow> m\<lparr>own := AList.update key v (own m)\<rparr> | None \<Rightarrow> m"
  from Cons.prems have key: "key \<notin> set Object_prototype_names"
    and ks: "\<forall>k \<in> set ks. k \<notin> set Object_prototype_names" by simp_all
  have step: "merge_key a b key m = Inr ?m1"
    using assms(1,2) key by (rule merge_key_plain)
  from Cons.IH [OF ks, of ?m1] obtain m' where
    m': "merge_loop a b ks ?m1 = Inr m'" "proto m' = proto ?m1"
      "\<forall>k. map_of (own m') k =
           (if k \<in> set ks \<and> merged_entry (own a) (own b) k \<noteq> None
            then merged_entry (own a) (own b) k else map_of (own ?m1) k)"
    by blast
  have p1: "proto ?m1 = proto m" by (simp split: option.splits)
  have o1: "\<And>k. map_of (own ?m1) k =
      (if k = key \<and> merged_entry (own a) (own b) k \<noteq> None
       then merged_entry (own a) (own b) k else map_of (own m) k)"
    by (auto simp add: update_conv' split: option.splits)
  from step m'(1) have "merge_loop a b (key # ks) m = Inr m'" by simp
  moreover from m'(2) p1 have "proto m' = proto m" by simp
  moreover from m'(3) o1 have "\<forall>k. map_of (own m') k =
           (if k \<in> set (key # ks) \<and> merged_entry (own a) (own b) k \<noteq> None
            then merged_entry (own a) (own b) k else map_of (own m) k)"
    by auto
  ultimately show ?case by blast
qed

lemma set_set_of_keys: "set (set_of_keys seen ks) = set seen \<union> set ks"
  by (induction ks arbitrary: seen) auto

lemma set_keys: "set (keys r) = fst ` set (own r)"
  by (simp add: keys_def dom_clearjunk)

lemma merged_entry_present:
  "k \<in> fst ` set a \<union> fst ` set b \<longleftrightarrow> merged_entry a b k \<noteq> None"
proof -
  have "k \<in> fst ` set a \<union> fst ` set b \<longleftrightarrow> map_of a k \<noteq> None \<or> map_of b k \<noteq> None"
    by (auto simp add: map_of_eq_None_iff)
  also have "\<dots> \<longleftrightarrow> merged_entry a b k \<noteq> None"
    by (auto simp add: merged_entry_def split: option.splits)
  finally show ?thesis .
qed

text \<open>Every key of the loop is an own key of one of the two sources.\<close>

lemma merge_key_reached:
  assumes "key \<in> set (set_of_keys [] (keys a @ keys b))"
  shows "(\<exists>v. get_prop a key = Entry v) \<or> (\<exists>v. get_prop b key = Entry v)"
proof -
  from assms have "key \<in> fst ` set (own a) \<union> fst ` set (own b)"
    by (simp add: set_set_of_keys set_keys)
  then have "map_of (own a) key \<noteq> None \<or> map_of (own b) key \<noteq> None"
    by (auto simp add: map_of_eq_None_iff)
  then show ?thesis
    by (auto simp add: get_prop_def)
qed

lemma merge_sources_plain:
  assumes "proto a = Object_prototype" and "proto b = Object_prototype"
    and "\<forall>k \<in> fst ` set (own a) \<union> fst ` set (own b). k \<notin> set Object_prototype_names"
  shows "\<exists>m. merge_sources a b = Inr m \<and> proto m = Object_prototype
     \<and> (\<forall>k. map_of (own m) k = merged_entry (own a) (own b) k)"
proof -
  let ?ks = "set_of_keys [] (keys a @ keys b)"
  have s: "set ?ks = fst ` set (own a) \<union> fst ` set (own b)"
    by (simp add: set_set_of_keys set_keys)
  with assms(3) have "\<forall>k \<in> set ?ks. k \<notin> set Object_prototype_names" by simp
  from merge_loop_plain [OF assms(1,2) this, of empty_record] obtain m where
    m: "merge_loop a b ?ks empty_record = Inr m" "proto m = proto empty_record"
      "\<forall>k. map_of (own m) k =
           (if k \<in> set ?ks \<and> merged_entry (own a) (own b) k \<noteq> None
            then merged_entry (own a) (own b) k else map_of (own empty_record) k)"
    by blast
  have "map_of (own m) k = merged_entry (own a) (own b) k" for k
  proof (cases "merged_entry (own a) (own b) k")
    case None
    with m(3) show ?thesis by (simp add: empty_record_def)
  next
    case (Some v)
    then have "k \<in> set ?ks"
      using merged_entry_present [of k "own a" "own b"] s by simp
    with m(3) Some show ?thesis by simp
  qed
  with m(1,2) show ?thesis
    by (simp add: merge_sources_def empty_record_def)
qed

lemma ensureLoaded_unloaded:
  assumes "\<not> loaded st"
    and "merge_sources
           (case readFileIfExists (primaryFile st) of Some r \<Rightarrow> r | None \<Rightarrow> empty_record)
           (case readFileIfExists (secondaryFile st) of Some r \<Rightarrow> r | None \<Rightarrow> empty_record)
         = Inr m"
  shows "\<exists>st1. ensureLoaded st = Inr st1 \<and> cache st1 = m"
proof (cases "\<not> existsSync (primaryFile st) \<and> primaryWritable st")
  case True
  have "ensureLoaded st =
      Inr (st\<lparr>cache := m, loaded := True, primaryFile := written m\<rparr>)"
    unfolding ensureLoaded_def Let_def assms(2) using assms(1) True by simp
  then show ?thesis by simp
next
  case False
  have "ensureLoaded st = Inr (st\<lparr>cache := m, loaded := True\<rparr>)"
    unfolding ensureLoaded_def Let_def assms(2) using assms(1) False by auto
  then show ?thesis by simp
qed


text \<open>The reconciliation that the load performs, for sources none of whose keys names a
  member of \<^verbatim>\<open>Object.prototype\<close>: the load succeeds, the merged cache has an entry for
  every id of either source, an id of one source keeps that source's entry, and an id of
  both sources whose snapshots have distinct valid \<^verbatim>\<open>updatedAt\<close> keeps the entry with the
  later one.\<close>

lemma reconciliation_plain_keys:
  assumes "\<not> loaded st"
    and "a = (case primaryFile st of Stored r \<Rightarrow> r | _ \<Rightarrow> [])"
    and "b = (case secondaryFile st of Stored r \<Rightarrow> r | _ \<Rightarrow> [])"
    and "\<forall>k \<in> fst ` set a \<union> fst ` set b. k \<notin> set Object_prototype_names"
  shows "\<exists>st1. ensureLoaded st = Inr st1
    \<and> (\<forall>k \<in> fst ` set a \<union> fst ` set b. \<exists>v. get_prop (cache st1) k = Entry v)
    \<and> (\<forall>k va. map_of a k = Some va \<and> map_of b k = None \<longrightarrow>
          get_prop (cache st1) k = Entry va)
    \<and> (\<forall>k vb. map_of a k = None \<and> map_of b k = Some vb \<longrightarrow>
          get_prop (cache st1) k = Entry vb)
    \<and> (\<forall>k va vb x y. map_of a k = Some va \<and> map_of b k = Some vb
          \<and> updatedAt (data_escrow va) = Date x \<and> updatedAt (data_escrow vb) = Date y
          \<and> x \<noteq> y \<longrightarrow>
          get_prop (cache st1) k = Entry (if x > y then va else vb))"
proof -
  let ?a = "case readFileIfExists (primaryFile st) of Some r \<Rightarrow> r | None \<Rightarrow> empty_record"
  let ?b = "case readFileIfExists (secondaryFile st) of Some r \<Rightarrow> r | None \<Rightarrow> empty_record"
  have a: "own ?a = a" "proto ?a = Object_prototype"
    using assms(2) by (cases "primaryFile st"; simp add: empty_record_def)+
  have b: "own ?b = b" "proto ?b = Object_prototype"
    using assms(3) by (cases "secondaryFile st"; simp add: empty_record_def)+
  from assms(4) a(1) b(1)
  have "\<forall>k \<in> fst ` set (own ?a) \<union> fst ` set (own ?b). k \<notin> set Object_prototype_names"
    by simp
  from merge_sources_plain [OF a(2) b(2) this] a(1) b(1) obtain m where
    m: "merge_sources ?a ?b = Inr m" "proto m = Object_prototype"
      "\<forall>k. map_of (own m) k = merged_entry a b k"
    by auto
  have "\<exists>st1. ensureLoaded st = Inr st1 \<and> cache st1 = m"
    using assms(1) m(1) by (rule ensureLoaded_unloaded)
  then obtain st1 where st1: "ensureLoaded st = Inr st1" "cache st1 = m"
    by blast
  have look: "get_prop m k = Entry v"
    if "k \<in> fst ` set a \<union> fst ` set b" and "merged_entry a b k = Some v" for k v
  proof -
    from that(1) assms(4) have "k \<notin> set Object_prototype_names" by blast
    from get_prop_plain [OF m(2) this] have "get_prop m k =
        (case map_of (own m) k of Some v \<Rightarrow> Entry v | None \<Rightarrow> Undefined)" .
    moreover from m(3) that(2) have "map_of (own m) k = Some v" by simp
    ultimately show ?thesis by simp
  qed
  have 1: "\<forall>k \<in> fst ` set a \<union> fst ` set b. \<exists>v. get_prop m k = Entry v"
  proof
    fix k assume k: "k \<in> fst ` set a \<union> fst ` set b"
    then obtain v where "merged_entry a b k = Some v"
      using merged_entry_present [of k a b] by auto
    with k show "\<exists>v. get_prop m k = Entry v" using look by blast
  qed
  have 2: "get_prop m k = Entry va" if "map_of a k = Some va \<and> map_of b k = None" for k va
  proof -
    from that have "merged_entry a b k = Some va" by (simp add: merged_entry_def)
    moreover from this have "k \<in> fst ` set a \<union> fst ` set b"
      using merged_entry_present [of k a b] by simp
    ultimately show ?thesis using look by blast
  qed
  have 3: "get_prop m k = Entry vb" if "map_of a k = None \<and> map_of b k = Some vb" for k vb
  proof -
    from that have "merged_entry a b k = Some vb" by (simp add: merged_entry_def)
    moreover from this have "k \<in> fst ` set a \<union> fst ` set b"
      using merged_entry_present [of k a b] by simp
    ultimately show ?thesis using look by blast
  qed
  have 4: "get_prop m k = Entry (if x > y then va else vb)"
    if "map_of a k = Some va \<and> map_of b k = Some vb
        \<and> updatedAt (data_escrow va) = Date x \<and> updatedAt (data_escrow vb) = Date y \<and> x \<noteq> y"
    for k va vb x y
  proof -
    from that have "merged_entry a b k = Some (if x > y then va else vb)"
      by (auto simp add: merged_entry_def)
    moreover from this have "k \<in> fst ` set a \<union> fst ` set b"
      using merged_entry_present [of k a b] by simp
    ultimately show ?thesis using look by blast
  qed
  show ?thesis
  proof (intro exI conjI)
    show "ensureLoaded st = Inr st1" by (rule st1(1))
    show "\<forall>k \<in> fst ` set a \<union> fst ` set b. \<exists>v. get_prop (cache st1) k = Entry v"
      unfolding st1(2) by (rule 1)
    show "\<forall>k va. map_of a k = Some va \<and> map_of b k = None \<longrightarrow>
          get_prop (cache st1) k = Entry va"
      unfolding st1(2) by (intro allI impI) (rule 2)
    show "\<forall>k vb. map_of a k = None \<and> map_of b k = Some vb \<longrightarrow>
          get_prop (cache st1) k = Entry vb"
      unfolding st1(2) by (intro allI impI) (rule 3)
    show "\<forall>k va vb x y. map_of a k = Some va \<and> map_of b k = Some vb
          \<and> updatedAt (data_escrow va) = Date x \<and> updatedAt (data_escrow vb) = Date y
          \<and> x \<noteq> y \<longrightarrow>
          get_prop (cache st1) k = Entry (if x > y then va else vb)"
      unfolding st1(2) by (intro allI impI) (rule 4)
  qed
qed

lemma reconciliation_example:
  "\<exists>st1. ensureLoaded unloaded_store = Inr st1
     \<and> get_prop (cache st1) ''test-escrow-1'' = Entry funded_entry
     \<and> get_prop (cache st1) ''only-primary'' = Entry proposed_entry"
  by (simp add: ensureLoaded_def unloaded_store_def older_source_def newer_source_def
        merge_sources_def keys_def merge_key_def get_prop_def set_prop_def empty_record_def
        Object_prototype_names_def funded_entry_def proposed_entry_def test_escrow_def
        existsSync_def Let_def)

text \<open>
  Claim C6 (load-time reconciliation), at a source one of whose ids names a member of
  \<^verbatim>\<open>Object.prototype\<close>. The primary file holds one entry, under the id \<^verbatim>\<open>constructor\<close>,
  and there is no secondary file, so the id is present in exactly one source. In the loop
  \<^verbatim>\<open>b[key]\<close> is the inherited \<^verbatim>\<open>Object\<close> function, both values are truthy, and
  \<^verbatim>\<open>vb.escrow.updatedAt\<close> throws a \<^verbatim>\<open>TypeError\<close> that nothing catches: the load produces no
  merged map. For sources whose ids name no such member the merge is as the claim says
  (lemma \<open>reconciliation_plain_keys\<close>).
\<close>

theorem load_throws_on_inherited_key:
  "\<not> loaded constructor_store
   \<and> primaryFile constructor_store =
       Stored [(''constructor'',
                \<lparr>data_escrow = constructor_escrow, data_events = [created_event]\<rparr>)]
   \<and> secondaryFile constructor_store = NoFile
   \<and> ensureLoaded constructor_store = Inl TypeError"
  by (simp add: constructor_store_def ensureLoaded_def merge_sources_def keys_def
        merge_key_def get_prop_def empty_record_def Object_prototype_names_def Let_def)

text \<open>What \<^verbatim>\<open>update\<close> does, by what \<^verbatim>\<open>state.cache[escrow.id]\<close> is.\<close>

lemma update_by_lookup:
  "loaded st \<Longrightarrow>
     (get_prop (cache st) (id_of e) = Undefined \<longrightarrow>
        update e ev st = (Inl (Error (''Escrow '' @ id_of e @ '' not found'')), st))
   \<and> (get_prop (cache st) (id_of e) = Foreign \<longrightarrow> update e ev st = (Inl TypeError, st))
   \<and> (\<forall>d. get_prop (cache st) (id_of e) = Entry d \<longrightarrow>
          fst (update e ev st) = Inr ()
        \<and> get_prop (cache (snd (update e ev st))) (id_of e) =
            Entry \<lparr>data_escrow = e, data_events = data_events d @ [ev]\<rparr>)"
  by (simp add: update_def ensureLoaded_loaded cache_persist get_prop_set_prop)

lemma update_example:
  "update (test_escrow RELEASED 3000) released_event empty_store =
       (Inl (Error ''Escrow test-escrow-1 not found''), empty_store)
   \<and> fst (update (test_escrow RELEASED 3000) released_event funded_store) = Inr ()
   \<and> get_prop (cache (snd (update (test_escrow RELEASED 3000) released_event funded_store)))
        ''test-escrow-1'' =
       Entry \<lparr>data_escrow = test_escrow RELEASED 3000,
              data_events = [created_event, funded_event, released_event]\<rparr>"
proof -
  have l1: "loaded empty_store" by (simp add: empty_store_def)
  have l2: "loaded funded_store" by (simp add: funded_store_def)
  have i: "id_of (test_escrow RELEASED 3000) = ''test-escrow-1''"
    by (simp add: test_escrow_def)
  have a: "get_prop (cache empty_store) (id_of (test_escrow RELEASED 3000)) = Undefined"
    by (simp add: empty_store_def empty_record_def get_prop_def i Object_prototype_names_def)
  have p: "get_prop (cache funded_store) (id_of (test_escrow RELEASED 3000)) = Entry funded_entry"
    by (simp add: funded_store_def get_prop_def i)
  from update_by_lookup [OF l1, of "test_escrow RELEASED 3000" released_event] a
  have 1: "update (test_escrow RELEASED 3000) released_event empty_store =
       (Inl (Error ''Escrow test-escrow-1 not found''), empty_store)"
    by (simp add: i)
  from update_by_lookup [OF l2, of "test_escrow RELEASED 3000" released_event] p
  have 2: "fst (update (test_escrow RELEASED 3000) released_event funded_store) = Inr ()
   \<and> get_prop (cache (snd (update (test_escrow RELEASED 3000) released_event funded_store)))
        ''test-escrow-1'' =
       Entry \<lparr>data_escrow = test_escrow RELEASED 3000,
              data_events = [created_event, funded_event, released_event]\<rparr>"
    by (simp add: i funded_entry_def)
  from 1 2 show ?thesis by simp
qed

text \<open>
  Claim C7 (contract of \<^verbatim>\<open>update\<close>), at an id that names a member of \<^verbatim>\<open>Object.prototype\<close>.
  The store is loaded and holds no entry; the escrow's id is \<^verbatim>\<open>constructor\<close>. Then
  \<^verbatim>\<open>state.cache[escrow.id]\<close> is the inherited \<^verbatim>\<open>Object\<close> function, the not-found check
  passes it, and \<^verbatim>\<open>[...data.events, event]\<close> throws a \<^verbatim>\<open>TypeError\<close>, not the not-found
  error; the store is left as it was. For every other absent id the call throws the
  not-found error, and for a stored id it replaces the snapshot and appends the event
  (lemma \<open>update_by_lookup\<close>).
\<close>

theorem update_throws_on_inherited_id:
  "loaded empty_store
   \<and> own (cache empty_store) = []
   \<and> id_of constructor_escrow = ''constructor''
   \<and> update constructor_escrow created_event empty_store = (Inl TypeError, empty_store)"
  by (simp add: empty_store_def empty_record_def constructor_escrow_def test_escrow_def
        update_def ensureLoaded_def get_prop_def Object_prototype_names_def)

text \<open>
  Claim C10 (\<^verbatim>\<open>create\<close> overwrites). On a store whose load does not throw, which every
  loaded store is (\<open>ensureLoaded_loaded\<close>) and every constructed store is loaded and stays
  so, \<^verbatim>\<open>create(escrow, event)\<close> returns normally, and whatever the store held before,
  afterwards \<^verbatim>\<open>cache[escrow.id]\<close> is the escrow with the one-event list; an entry that
  was there, snapshot and history, is replaced.
\<close>

theorem create_replaces:
  "ensureLoaded st = Inr st1 \<Longrightarrow>
     fst (create e ev st) = Inr ()
   \<and> get_prop (cache (snd (create e ev st))) (id_of e) =
       Entry \<lparr>data_escrow = e, data_events = [ev]\<rparr>"
  by (simp add: create_def cache_persist get_prop_set_prop)

theorem create_replaces_witness:
  "loaded funded_store
   \<and> get_prop (cache funded_store) ''test-escrow-1'' =
       Entry \<lparr>data_escrow = test_escrow FUNDED 2000,
              data_events = [created_event, funded_event]\<rparr>
   \<and> fst (create (test_escrow PROPOSED 1000) created_event funded_store) = Inr ()
   \<and> get_prop (cache (snd (create (test_escrow PROPOSED 1000) created_event funded_store)))
        ''test-escrow-1'' =
       Entry \<lparr>data_escrow = test_escrow PROPOSED 1000, data_events = [created_event]\<rparr>"
proof -
  have l: "loaded funded_store" by (simp add: funded_store_def)
  have i: "id_of (test_escrow PROPOSED 1000) = ''test-escrow-1''"
    by (simp add: test_escrow_def)
  have p: "get_prop (cache funded_store) ''test-escrow-1'' =
       Entry \<lparr>data_escrow = test_escrow FUNDED 2000,
              data_events = [created_event, funded_event]\<rparr>"
    by (simp add: funded_store_def get_prop_def funded_entry_def)
  from create_replaces [OF ensureLoaded_loaded [OF l], of "test_escrow PROPOSED 1000"
      created_event] l p
  show ?thesis by (simp add: i)
qed

text \<open>Under the id \<^verbatim>\<open>__proto__\<close> the assignment of \<^verbatim>\<open>create\<close> makes the pair the prototype
  of the cache: the cache gains no own property and the files no entry, and the lookup
  still gives the pair.\<close>

lemma create_proto_id:
  "fst (create ((test_escrow PROPOSED 1000)\<lparr>id_of := ''__proto__''\<rparr>) created_event
          empty_store) = Inr ()
   \<and> own (cache (snd (create ((test_escrow PROPOSED 1000)\<lparr>id_of := ''__proto__''\<rparr>)
          created_event empty_store))) = []
   \<and> primaryFile (snd (create ((test_escrow PROPOSED 1000)\<lparr>id_of := ''__proto__''\<rparr>)
          created_event empty_store)) = Stored []
   \<and> get_prop (cache (snd (create ((test_escrow PROPOSED 1000)\<lparr>id_of := ''__proto__''\<rparr>)
          created_event empty_store))) ''__proto__'' =
       Entry \<lparr>data_escrow = (test_escrow PROPOSED 1000)\<lparr>id_of := ''__proto__''\<rparr>,
              data_events = [created_event]\<rparr>"
  by (simp add: create_def ensureLoaded_def empty_store_def empty_record_def set_prop_def
        get_prop_def persist_def written_def Let_def test_escrow_def)


section \<open>Replay: results\<close>

lemma find_created_None:
  "find (\<lambda>e. event_type e = ESCROW_CREATED) evs = None \<longleftrightarrow>
     (\<forall>e \<in> set evs. event_type e \<noteq> ESCROW_CREATED)"
  by (auto simp add: find_None_iff)

lemma find_created_Some:
  "find (\<lambda>e. event_type e = ESCROW_CREATED) evs = Some c \<Longrightarrow>
     c \<in> set evs \<and> event_type c = ESCROW_CREATED"
  by (auto simp add: find_Some_iff)

lemma find_append_Some: "find P xs = Some c \<Longrightarrow> find P (xs @ ys) = Some c"
  by (induction xs) (auto split: if_splits)

lemma apply_state_changes_snoc: "apply_state_changes s (xs @ [ev]) = toState ev"
  by (induction xs arbitrary: s) auto

text \<open>What \<^verbatim>\<open>reconstructEscrow\<close> computes, in one case distinction.\<close>

lemma reconstructEscrow_find:
  "reconstructEscrow evs =
     (case find (\<lambda>e. event_type e = ESCROW_CREATED) evs of
        None \<Rightarrow> None
      | Some c \<Rightarrow>
          Some \<lparr>id_of = escrowId c, buyerId = event_buyerId c, sellerId = event_sellerId c,
                 amount = event_amount c, description = event_description c,
                 currentState = apply_state_changes PROPOSED
                                  (filter (\<lambda>e. event_type e = STATE_CHANGED) evs),
                 createdAt = timestamp c,
                 updatedAt = timestamp (last evs),
                 events = evs\<rparr>)"
proof (cases evs)
  case Nil
  then show ?thesis by (simp add: reconstructEscrow_def reconstructStateFromEvents_def)
next
  case (Cons e es)
  then have "evs ! (length evs - 1) = last evs"
    by (simp add: last_conv_nth)
  with Cons show ?thesis
    by (simp add: reconstructEscrow_def reconstructStateFromEvents_def Let_def
          split: option.splits)
qed

text \<open>
  Claim C2, as amended. \<^verbatim>\<open>reconstructEscrow(events)\<close> returns \<^verbatim>\<open>null\<close> exactly when the
  sequence holds no \<^verbatim>\<open>Created\<close> event, in particular when it is empty. For every sequence
  whose first element is a \<^verbatim>\<open>Created\<close> event, and more generally for every sequence that
  holds one, it returns an escrow seeded from the first \<^verbatim>\<open>Created\<close> event of the
  sequence: that event's escrow id, buyer, seller, amount, description and timestamp.
\<close>

theorem reconstruct_null_iff_no_created:
  "(reconstructEscrow evs = None \<longleftrightarrow> (\<forall>e \<in> set evs. event_type e \<noteq> ESCROW_CREATED))
   \<and> (\<forall>c rest. evs = c # rest \<and> event_type c = ESCROW_CREATED \<longrightarrow>
         (\<exists>r. reconstructEscrow evs = Some r
            \<and> id_of r = escrowId c \<and> buyerId r = event_buyerId c
            \<and> sellerId r = event_sellerId c \<and> amount r = event_amount c
            \<and> description r = event_description c \<and> createdAt r = timestamp c))
   \<and> (\<forall>c. find (\<lambda>e. event_type e = ESCROW_CREATED) evs = Some c \<longrightarrow>
         (\<exists>r. reconstructEscrow evs = Some r
            \<and> id_of r = escrowId c \<and> buyerId r = event_buyerId c
            \<and> sellerId r = event_sellerId c \<and> amount r = event_amount c
            \<and> description r = event_description c \<and> createdAt r = timestamp c))"
proof (cases "find (\<lambda>e. event_type e = ESCROW_CREATED) evs")
  case None
  then show ?thesis
    using find_created_None [of evs] by (auto simp add: reconstructEscrow_find)
next
  case (Some c)
  then show ?thesis
    using find_created_Some [OF Some] by (auto simp add: reconstructEscrow_find)
qed

theorem reconstruct_null_iff_no_created_witness:
  "reconstructEscrow [] = None
   \<and> reconstructEscrow [funded_event, released_event] = None
   \<and> (\<exists>r. reconstructEscrow [created_event, funded_event] = Some r
         \<and> id_of r = ''test-escrow-1'' \<and> buyerId r = ''buyer-123''
         \<and> sellerId r = ''seller-456'' \<and> amount r = 5000
         \<and> description r = ''Purchase of goods'' \<and> createdAt r = Date 1000)"
  using reconstruct_null_iff_no_created [of "[]"]
    reconstruct_null_iff_no_created [of "[funded_event, released_event]"]
    reconstruct_null_iff_no_created [of "[created_event, funded_event]"]
  by (simp add: created_event_def funded_event_def released_event_def)

text \<open>
  Claim C2 as stated fails: a sequence whose first element is a \<^verbatim>\<open>StateChanged\<close> event and
  whose second is the \<^verbatim>\<open>Created\<close> event is not reconstructed to \<^verbatim>\<open>null\<close>.
\<close>

theorem reconstruct_first_not_created_counterexample:
  "\<not> (\<forall>evs. reconstructEscrow evs = None \<longleftrightarrow>
          (evs = [] \<or> event_type (hd evs) \<noteq> ESCROW_CREATED))"
proof
  assume h: "\<forall>evs. reconstructEscrow evs = None \<longleftrightarrow>
          (evs = [] \<or> event_type (hd evs) \<noteq> ESCROW_CREATED)"
  then have "reconstructEscrow [funded_event, created_event] = None \<longleftrightarrow>
          ([funded_event, created_event] = []
           \<or> event_type (hd [funded_event, created_event]) \<noteq> ESCROW_CREATED)"
    by blast
  then show False
    by (simp add: reconstructEscrow_find created_event_def funded_event_def)
qed

section \<open>Timestamps and the round trip\<close>

lemma createEscrow_timestamps:
  "createEscrow i b s am d w = ((e, ev), w') \<Longrightarrow>
     createdAt e = Date (clock w (ticks w)) \<and> updatedAt e = Date (clock w (ticks w))
     \<and> timestamp ev = Date (clock w (ticks w + 2))"
  by (auto simp add: createEscrow_def env_defs Let_def split_def)

lemma applyAction_timestamps:
  "applyAction e a p r re w = (res, w') \<Longrightarrow> applied res \<Longrightarrow>
     map_option updatedAt (newEscrow res) = Some (Date (clock w (ticks w)))
     \<and> map_option timestamp (event res) = Some (Date (clock w (ticks w + 2)))"
  by (auto simp add: applyAction_def env_defs Let_def split_def split: if_splits)

text \<open>
  Claim C3 (timestamp agreement), at a clock that advances between two readings.
  \<^verbatim>\<open>createEscrow\<close> reads the clock for \<^verbatim>\<open>createdAt\<close>, and \<^verbatim>\<open>createEscrowCreatedEvent\<close>
  reads it again for the event's \<^verbatim>\<open>timestamp\<close>; \<^verbatim>\<open>applyAction\<close> and
  \<^verbatim>\<open>createStateChangedEvent\<close> do the same for \<^verbatim>\<open>updatedAt\<close>. Here the escrow is created at
  1000 and its event stamped 1001, and the accepted \<^verbatim>\<open>FUND\<close> sets \<^verbatim>\<open>updatedAt\<close> to 1000
  and stamps its event 1001.
\<close>

theorem timestamps_disagree_on_ticking_clock:
  "createdAt (fst (fst (createEscrow ''test-escrow-1'' ''buyer-123'' ''seller-456'' 5000
       ''Purchase of goods'' ticking_env))) = Date 1000
   \<and> timestamp (snd (fst (createEscrow ''test-escrow-1'' ''buyer-123'' ''seller-456'' 5000
       ''Purchase of goods'' ticking_env))) = Date 1001
   \<and> applied (fst (applyAction (test_escrow PROPOSED 1000) FUND ''buyer-123'' BUYER None
       ticking_env))
   \<and> map_option updatedAt (newEscrow (fst (applyAction (test_escrow PROPOSED 1000) FUND
       ''buyer-123'' BUYER None ticking_env))) = Some (Date 1000)
   \<and> map_option timestamp (event (fst (applyAction (test_escrow PROPOSED 1000) FUND
       ''buyer-123'' BUYER None ticking_env))) = Some (Date 1001)"
  by (simp add: createEscrow_def applyAction_def env_defs sm_defs Let_def split_def
        ticking_env_def test_escrow_def)

lemma replays_createEscrow:
  "createEscrow i b s am d w = ((e, ev), w') \<Longrightarrow> replays e [ev]"
  by (auto simp add: replays_def reconstructEscrow_find createEscrow_def env_defs Let_def
        split_def)

lemma replays_applyAction:
  assumes "replays e h" and "applyAction e a p r re w = (res, w')" and "applied res"
    and "newEscrow res = Some e'" and "event res = Some ev"
  shows "replays e' (h @ [ev])"
proof -
  from assms(1) obtain c where c: "find (\<lambda>e. event_type e = ESCROW_CREATED) h = Some c"
    by (auto simp add: replays_def reconstructEscrow_find split: option.splits)
  then have ne: "h \<noteq> []" by auto
  have f: "find (\<lambda>e. event_type e = ESCROW_CREATED) (h @ [ev]) = Some c"
    using c by (rule find_append_Some)
  from assms(2-5) have ev: "event_type ev = STATE_CHANGED" "toState ev = currentState e'"
    and e': "id_of e' = id_of e" "buyerId e' = buyerId e" "sellerId e' = sellerId e"
      "amount e' = amount e" "description e' = description e"
    by (auto simp add: applyAction_def env_defs Let_def split_def split: if_splits)
  from assms(1) c ne show ?thesis
    by (simp add: replays_def reconstructEscrow_find f ev e' apply_state_changes_snoc)
qed

lemma replays_apply_all:
  "apply_all e h reqs w = Some (e', h', w') \<Longrightarrow> replays e h \<Longrightarrow> replays e' h'"
proof (induction reqs arbitrary: e h w)
  case Nil
  then show ?case by simp
next
  case (Cons q reqs)
  obtain a p r re where q: "q = (a, p, r, re)" by (cases q) auto
  obtain res w1 where ap: "applyAction e a p r re w = (res, w1)" by (cases "applyAction e a p r re w") auto
  from Cons.prems(1) q ap have ok: "applied res"
    by (auto split: if_splits)
  from Cons.prems(1) q ap ok obtain e1 ev where
    n: "newEscrow res = Some e1" "event res = Some ev"
    and rest: "apply_all e1 (h @ [ev]) reqs w1 = Some (e', h', w')"
    by (auto split: option.splits)
  from Cons.prems(2) ap ok n have "replays e1 (h @ [ev])" by (rule replays_applyAction)
  with rest show ?case by (rule Cons.IH)
qed

lemma roundtrip_up_to_timestamps:
  "lifecycle i b s am d reqs w = Some (e, h, w') \<Longrightarrow> replays e h"
proof -
  assume l: "lifecycle i b s am d reqs w = Some (e, h, w')"
  obtain e0 ev0 w0 where c: "createEscrow i b s am d w = ((e0, ev0), w0)"
    by (cases "createEscrow i b s am d w") auto
  with l have "apply_all e0 [ev0] reqs w0 = Some (e, h, w')"
    by (simp add: lifecycle_def)
  moreover from c have "replays e0 [ev0]" by (rule replays_createEscrow)
  ultimately show ?thesis by (rule replays_apply_all)
qed

text \<open>On a clock that stands still the round trip is exact.\<close>

lemma createEscrow_still:
  assumes "createEscrow i b s am d w = ((e, ev), w')" and "\<forall>k. clock w k = t"
  shows "createdAt e = Date t \<and> updatedAt e = Date t \<and> timestamp ev = Date t
    \<and> clock w' = clock w"
  using assms by (auto simp add: createEscrow_def env_defs Let_def split_def)

lemma applyAction_still:
  assumes "applyAction e a p r re w = (res, w')" and "applied res"
    and "newEscrow res = Some e'" and "event res = Some ev" and "\<forall>k. clock w k = t"
  shows "createdAt e' = createdAt e \<and> updatedAt e' = Date t \<and> timestamp ev = Date t
    \<and> clock w' = clock w"
  using assms by (auto simp add: applyAction_def env_defs Let_def split_def split: if_splits)

lemma apply_all_still:
  "apply_all e h reqs w = Some (e', h', w') \<Longrightarrow> \<forall>k. clock w k = t \<Longrightarrow>
     h \<noteq> [] \<Longrightarrow> createdAt e = Date t \<Longrightarrow> updatedAt e = Date t \<Longrightarrow>
     \<forall>x \<in> set h. timestamp x = Date t \<Longrightarrow>
     h' \<noteq> [] \<and> createdAt e' = Date t \<and> updatedAt e' = Date t
     \<and> (\<forall>x \<in> set h'. timestamp x = Date t)"
proof (induction reqs arbitrary: e h w)
  case Nil
  then show ?case by simp
next
  case (Cons q reqs)
  obtain a p r re where q: "q = (a, p, r, re)" by (cases q) auto
  obtain res w1 where ap: "applyAction e a p r re w = (res, w1)"
    by (cases "applyAction e a p r re w") auto
  from Cons.prems(1) q ap have ok: "applied res"
    by (auto split: if_splits)
  from Cons.prems(1) q ap ok obtain e1 ev where
    n: "newEscrow res = Some e1" "event res = Some ev"
    and rest: "apply_all e1 (h @ [ev]) reqs w1 = Some (e', h', w')"
    by (auto split: option.splits)
  note st = applyAction_still [OF ap ok n Cons.prems(2)]
  from st Cons.prems(2) have c1: "\<forall>k. clock w1 k = t" by simp
  from st Cons.prems(6) have ts: "\<forall>x \<in> set (h @ [ev]). timestamp x = Date t" by simp
  from st Cons.prems(4) have cr: "createdAt e1 = Date t" by simp
  from st have up: "updatedAt e1 = Date t" by simp
  show ?case
    by (rule Cons.IH [OF rest c1 _ cr up ts]) simp
qed

lemma roundtrip_on_still_clock:
  assumes "lifecycle i b s am d reqs w = Some (e, h, w')" and "\<forall>k. clock w k = t"
  shows "map_option Escrow.truncate (reconstructEscrow h) = Some e"
proof -
  obtain e0 ev0 w0 where c: "createEscrow i b s am d w = ((e0, ev0), w0)"
    by (cases "createEscrow i b s am d w") auto
  with assms(1) have run: "apply_all e0 [ev0] reqs w0 = Some (e, h, w')"
    by (simp add: lifecycle_def)
  note st = createEscrow_still [OF c assms(2)]
  from st assms(2) have c0: "\<forall>k. clock w0 k = t" by simp
  have "h \<noteq> [] \<and> createdAt e = Date t \<and> updatedAt e = Date t
      \<and> (\<forall>x \<in> set h. timestamp x = Date t)"
    by (rule apply_all_still [OF run c0]) (use st in simp_all)
  moreover from assms(1) have "replays e h" by (rule roundtrip_up_to_timestamps)
  ultimately show ?thesis
    by (auto simp add: replays_def Escrow.truncate_def EscrowCore.truncate_def)
qed


text \<open>
  Claim C1 (round trip), at a clock that advances between two readings. The escrow of the
  integration test is created and funded; the last snapshot returned has \<^verbatim>\<open>createdAt\<close> 1000
  and \<^verbatim>\<open>updatedAt\<close> 1001, and \<^verbatim>\<open>reconstructEscrow\<close> of the two-event history returns an
  escrow with \<^verbatim>\<open>createdAt\<close> 1001 and \<^verbatim>\<open>updatedAt\<close> 1002. The other six fields agree, as
  they do for every lifecycle (lemma \<open>roundtrip_up_to_timestamps\<close>), and on a clock that
  stands still all eight do (lemma \<open>roundtrip_on_still_clock\<close>).
\<close>

theorem roundtrip_fails_on_ticking_clock:
  "(case lifecycle ''test-escrow-1'' ''buyer-123'' ''seller-456'' 5000 ''Purchase of goods''
           [(FUND, ''buyer-123'', BUYER, None)] ticking_env of
      None \<Rightarrow> False
    | Some (e, h, w) \<Rightarrow>
        e = \<lparr>id_of = ''test-escrow-1'', buyerId = ''buyer-123'', sellerId = ''seller-456'',
             amount = 5000, description = ''Purchase of goods'', currentState = FUNDED,
             createdAt = Date 1000, updatedAt = Date 1001\<rparr>
        \<and> map_option Escrow.truncate (reconstructEscrow h) =
            Some \<lparr>id_of = ''test-escrow-1'', buyerId = ''buyer-123'', sellerId = ''seller-456'',
                  amount = 5000, description = ''Purchase of goods'', currentState = FUNDED,
                  createdAt = Date 1001, updatedAt = Date 1002\<rparr>)"
  by (simp add: lifecycle_def createEscrow_def applyAction_def env_defs sm_defs Let_def split_def
        ticking_env_def reconstructEscrow_find Escrow.truncate_def EscrowCore.truncate_def)


end
